theory Spec2Isabelle
  imports Complex_Main "HOL-Library.Multiset"
begin

section \<open>The migration runner \<^verbatim>\<open>bin/runmigration.js\<close>\<close>

text \<open>
  The script discovers migration files, loads them, orders them by the revision number
  at the head of the file name, hands them to the Umzug migration framework and calls
  its \<^verbatim>\<open>up\<close>, \<^verbatim>\<open>down\<close>, \<^verbatim>\<open>executed\<close> and \<^verbatim>\<open>pending\<close> operations.
  The embedding below follows \<^verbatim>\<open>Main\<close> and \<^verbatim>\<open>getMigrator\<close> statement by statement.
  What the script calls but does not define (the file system, \<^verbatim>\<open>require\<close>, \<^verbatim>\<open>path.join\<close>,
  the option parser, \<^verbatim>\<open>lib/pathconfig\<close>, the Umzug instance, and the order a sort engine
  gives under an inconsistent comparator) is a field of the record \<open>world\<close>.
\<close>

subsection \<open>JavaScript values\<close>

text \<open>
  A JavaScript Number: \<open>NaN\<close>, a finite value, or one of the two infinities. A finite
  IEEE double is a rational number and is kept as such; both zeros are \<open>Num 0\<close>, which
  the operators used here do not tell apart. Strings are lists of code units below
  256.
\<close>

datatype number = NaN | Num rat | PosInf | NegInf

text \<open>The relational operators \<^verbatim>\<open><\<close> and \<^verbatim>\<open>===\<close>: every comparison with \<open>NaN\<close> is false.\<close>

fun lt :: "number \<Rightarrow> number \<Rightarrow> bool" where
  "lt (Num x) (Num y) = (x < y)"
| "lt (Num x) PosInf = True"
| "lt NegInf (Num y) = True"
| "lt NegInf PosInf = True"
| "lt _ _ = False"

fun strict_eq :: "number \<Rightarrow> number \<Rightarrow> bool" where
  "strict_eq (Num x) (Num y) = (x = y)"
| "strict_eq PosInf PosInf = True"
| "strict_eq NegInf NegInf = True"
| "strict_eq _ _ = False"

text \<open>Truthiness: \<open>0\<close> and \<open>NaN\<close> are falsy, and so is the empty string; \<open>None\<close> stands
  for \<^verbatim>\<open>undefined\<close> and \<^verbatim>\<open>null\<close>.\<close>

fun truthy_number :: "number option \<Rightarrow> bool" where
  "truthy_number None = False"
| "truthy_number (Some NaN) = False"
| "truthy_number (Some (Num n)) = (n \<noteq> 0)"
| "truthy_number (Some PosInf) = True"
| "truthy_number (Some NegInf) = True"

fun truthy_string :: "string option \<Rightarrow> bool" where
  "truthy_string None = False"
| "truthy_string (Some s) = (s \<noteq> [])"

subsection \<open>\<^verbatim>\<open>parseInt\<close>, \<^verbatim>\<open>path.basename\<close> and the revision of a file name\<close>

definition is_white :: "char \<Rightarrow> bool" where
  "is_white c = (c \<in> set [CHR 0x09, CHR 0x0A, CHR 0x0B, CHR 0x0C, CHR 0x0D, CHR 0x20, CHR 0xA0])"

definition digit_of :: "char \<Rightarrow> nat option" where
  "digit_of c =
     (let n = (of_char c :: nat)
      in if 48 \<le> n \<and> n \<le> 57 then Some (n - 48)
         else if 97 \<le> n \<and> n \<le> 122 then Some (n - 87)
         else if 65 \<le> n \<and> n \<le> 90 then Some (n - 55)
         else None)"

definition radix_digit :: "nat \<Rightarrow> char \<Rightarrow> bool" where
  "radix_digit R c = (case digit_of c of Some d \<Rightarrow> d < R | None \<Rightarrow> False)"

definition digit_val :: "char \<Rightarrow> nat" where
  "digit_val c = (case digit_of c of Some d \<Rightarrow> d | None \<Rightarrow> 0)"

text \<open>
  The integer that \<^verbatim>\<open>parseInt(string)\<close> reads, with no radix given: leading white space
  is dropped, one sign is read, a \<^verbatim>\<open>0x\<close> or \<^verbatim>\<open>0X\<close> prefix selects radix 16, and the longest
  run of digits is the value; \<open>None\<close> when there is no digit.
\<close>

definition mathInt :: "string \<Rightarrow> int option" where
  "mathInt s =
     (let S = dropWhile is_white s;
          sign = (case S of c # _ \<Rightarrow> if c = CHR ''-'' then (- 1 :: int) else 1 | [] \<Rightarrow> 1);
          S1 = (case S of c # r \<Rightarrow> if c = CHR ''+'' \<or> c = CHR ''-'' then r else S | [] \<Rightarrow> S);
          hex = (case S1 of a # b # _ \<Rightarrow> a = CHR ''0'' \<and> (b = CHR ''x'' \<or> b = CHR ''X'') | _ \<Rightarrow> False);
          R = (if hex then 16 else 10);
          S2 = (if hex then drop 2 S1 else S1);
          Z = takeWhile (radix_digit R) S2
      in if Z = [] then None
         else Some (sign * int (foldl (\<lambda>a c. a * R + digit_val c) 0 Z)))"

text \<open>
  The Number for an integer: the nearest IEEE double, ties to the even significand, and
  an infinity from \<open>2^1024\<close> on. An integer of at most 53 bits is kept as it is; a longer
  one keeps its leading 53 bits, rounded. (Node reads the digits exactly and rounds
  once; the language lets an engine replace decimal digits after the 20th by zeros.)
\<close>

fun bitlen :: "nat \<Rightarrow> nat" where
  "bitlen n = (if n = 0 then 0 else Suc (bitlen (n div 2)))"

definition to_double :: "int \<Rightarrow> number" where
  "to_double i =
     (let m = nat \<bar>i\<bar>;
          e = bitlen m - 53;
          q = m div 2 ^ e;
          r = m mod 2 ^ e;
          q' = (if 2 ^ e < 2 * r \<or> (2 * r = 2 ^ e \<and> odd q) then q + 1 else q);
          v = q' * 2 ^ e
      in if 1024 < bitlen v then (if i < 0 then NegInf else PosInf)
         else Num (of_int (if i < 0 then - int v else int v)))"

definition parseInt :: "string \<Rightarrow> number" where
  "parseInt s = (case mathInt s of None \<Rightarrow> NaN | Some i \<Rightarrow> to_double i)"

text \<open>\<^verbatim>\<open>path.basename\<close>: trailing separators are ignored and the part after the last
  separator is returned. A directory entry holds no separator, so it is its own base
  name.\<close>

definition basename :: "string \<Rightarrow> string" where
  "basename p = rev (takeWhile (\<lambda>c. c \<noteq> CHR ''/'') (dropWhile (\<lambda>c. c = CHR ''/'') (rev p)))"

text \<open>\<^verbatim>\<open>path.basename(name).split('-', 2)[0]\<close>: the first piece of the split is the text
  before the first \<^verbatim>\<open>-\<close>, or the whole name when it has none.\<close>

definition leading_token :: "string \<Rightarrow> string" where
  "leading_token n = takeWhile (\<lambda>c. c \<noteq> CHR ''-'') (basename n)"

definition revision_of_name :: "string \<Rightarrow> number" where
  "revision_of_name n = parseInt (leading_token n)"

subsection \<open>Migration files\<close>

text \<open>The typedefs \<^verbatim>\<open>AutoMigration\<close> and \<^verbatim>\<open>AutoMigrationFile\<close> of the script. Of the functions
  \<^verbatim>\<open>up\<close> and \<^verbatim>\<open>down\<close> of a migration, which Umzug runs, the record keeps whether the
  loaded object has them: \<^verbatim>\<open>getMigrator\<close> calls \<^verbatim>\<open>bind\<close> on both. \<open>mig_name\<close> is the property
  \<^verbatim>\<open>migration.name\<close> that \<^verbatim>\<open>getMigrator\<close> sets.\<close>

record AutoMigration =
  info_revision :: number
  info_name :: string
  info_created :: string
  info_comment :: string
  pos :: number
  useTransaction :: bool
  mig_name :: "string option"
  up_function :: bool
  down_function :: bool

record AutoMigrationFile =
  name :: string
  fullPath :: string
  migration :: "AutoMigration option"

definition revision :: "AutoMigrationFile \<Rightarrow> number" where
  "revision f = revision_of_name (name f)"

subsection \<open>Options and the outside world\<close>

text \<open>The parsed command line (\<^verbatim>\<open>optionDefinitions\<close>). An option that was not given is
  \<open>None\<close>; the Boolean options have default values. \<open>opt_pos\<close> is \<^verbatim>\<open>options.pos\<close> as the
  only reader, \<^verbatim>\<open>parseInt\<close>, takes it: converted to a string (\<^verbatim>\<open>0\<close> by default, \<^verbatim>\<open>2.7\<close> for
  2.7, \<^verbatim>\<open>1e+21\<close> for 1e21, \<^verbatim>\<open>null\<close> when the option has no value).\<close>

record options =
  opt_to :: "string option"
  opt_from :: "string option"
  opt_toRev :: "number option"
  opt_fromRev :: "number option"
  opt_rollback :: bool
  opt_pos :: string
  opt_no_transaction :: bool
  opt_list :: bool
  opt_migrations_path :: "string option"
  opt_models_path :: "string option"
  opt_help :: bool

text \<open>The object \<^verbatim>\<open>{ to, from }\<close> passed to \<^verbatim>\<open>migrator.up\<close> and \<^verbatim>\<open>migrator.down\<close>, and the
  object \<^verbatim>\<open>{ useTransaction, step }\<close> passed to \<^verbatim>\<open>getMigrator\<close>.\<close>

record method_options =
  mo_to :: "string option"
  mo_from :: "string option"

record migration_options =
  use_transaction :: bool
  step :: number

datatype error = Error string | TypeError

text \<open>
  Everything the script reaches outside itself. A call that can throw returns a sum,
  with \<open>Inl\<close> the exception. \<open>pathConfig\<close> is \<^verbatim>\<open>lib/pathconfig\<close>, which yields the
  migrations and the models directory; \<open>require_models\<close> is
  \<^verbatim>\<open>require(modelsDir).sequelize\<close>; \<open>path_join\<close> is \<^verbatim>\<open>path.join\<close>; \<open>require\<close> loads one
  migration script, \<open>None\<close> being a falsy export. \<open>sort_order\<close> is the choice of the sort
  engine when the comparator is not consistent: from the table of all comparator
  results it gives the positions of the elements in the order it leaves them.
  \<open>new_Umzug\<close> is the construction of the Umzug instance over the prepared migrations,
  \<^verbatim>\<open>sequelize.getQueryInterface()\<close> included. The last four fields are the operations of
  that instance; they return the names of the migrations concerned.
\<close>

record world =
  commandLineArgs :: "error + options"
  pathConfig :: "options \<Rightarrow> error + string \<times> string"
  existsSync :: "string \<Rightarrow> bool"
  require_models :: "string \<Rightarrow> error + unit"
  readdirSync :: "string \<Rightarrow> error + string list"
  path_join :: "string \<Rightarrow> string \<Rightarrow> string"
  require :: "string \<Rightarrow> error + AutoMigration option"
  sort_order :: "int list list \<Rightarrow> nat list"
  new_Umzug :: "AutoMigration list \<Rightarrow> error + unit"
  umzug_executed :: "AutoMigration list \<Rightarrow> error + string list"
  umzug_pending :: "AutoMigration list \<Rightarrow> error + string list"
  umzug_up :: "AutoMigration list \<Rightarrow> method_options \<Rightarrow> error + string list"
  umzug_down :: "AutoMigration list \<Rightarrow> method_options \<Rightarrow> error + string list"

subsection \<open>Sorting by revision\<close>

text \<open>The comparator handed to \<^verbatim>\<open>sort\<close> (lines 166 to 177).\<close>

definition by_revision :: "bool \<Rightarrow> AutoMigrationFile \<Rightarrow> AutoMigrationFile \<Rightarrow> int" where
  "by_revision rollback a b =
     (let revA = revision_of_name (name a);
          revB = revision_of_name (name b)
      in if rollback
         then (if lt revA revB then 1 else if lt revB revA then - 1 else 0)
         else (if lt revA revB then - 1 else if lt revB revA then 1 else 0))"

text \<open>
  \<^verbatim>\<open>Array.prototype.sort\<close>. The language calls a comparator consistent on the elements
  of the array when it is reflexive and symmetric in its zero results and transitive
  in its zero, negative and positive results. For a consistent comparator the result
  is fixed: the elements in comparator order, equal ones in their original order; a
  stable insertion sort computes it. Otherwise the order is left to the engine, and
  the result is the array permuted as \<open>sort_order\<close> says.
\<close>

definition consistent :: "('a \<Rightarrow> 'a \<Rightarrow> int) \<Rightarrow> 'a list \<Rightarrow> bool" where
  "consistent cmp xs =
     (\<forall>a \<in> set xs. cmp a a = 0 \<and>
        (\<forall>b \<in> set xs. (cmp a b = 0 \<longrightarrow> cmp b a = 0) \<and>
           (\<forall>c \<in> set xs.
              (cmp a b = 0 \<and> cmp b c = 0 \<longrightarrow> cmp a c = 0)
              \<and> (cmp a b < 0 \<and> cmp b c < 0 \<longrightarrow> cmp a c < 0)
              \<and> (0 < cmp a b \<and> 0 < cmp b c \<longrightarrow> 0 < cmp a c))))"

fun insert_sorted :: "('a \<Rightarrow> 'a \<Rightarrow> int) \<Rightarrow> 'a \<Rightarrow> 'a list \<Rightarrow> 'a list" where
  "insert_sorted cmp x [] = [x]"
| "insert_sorted cmp x (y # ys) =
     (if cmp x y \<le> 0 then x # y # ys else y # insert_sorted cmp x ys)"

fun stable_sort :: "('a \<Rightarrow> 'a \<Rightarrow> int) \<Rightarrow> 'a list \<Rightarrow> 'a list" where
  "stable_sort cmp [] = []"
| "stable_sort cmp (x # xs) = insert_sorted cmp x (stable_sort cmp xs)"

definition comparisons :: "('a \<Rightarrow> 'a \<Rightarrow> int) \<Rightarrow> 'a list \<Rightarrow> int list list" where
  "comparisons cmp xs = map (\<lambda>a. map (cmp a) xs) xs"

text \<open>The elements at the given positions; a list of positions that is not a permutation
  of the indices, which no engine gives, leaves the array as it is.\<close>

definition reorder :: "nat list \<Rightarrow> 'a list \<Rightarrow> 'a list" where
  "reorder p xs = (if sort p = [0..<length xs] then map (nth xs) p else xs)"

definition array_sort :: "world \<Rightarrow> ('a \<Rightarrow> 'a \<Rightarrow> int) \<Rightarrow> 'a list \<Rightarrow> 'a list" where
  "array_sort w cmp xs =
     (if consistent cmp xs then stable_sort cmp xs
      else reorder (sort_order w (comparisons cmp xs)) xs)"

subsection \<open>Discovering and loading the migration files\<close>

text \<open>The filter of lines 144 to 146: the name does not start with a dot and its last
  three characters are \<^verbatim>\<open>.js\<close>.\<close>

definition js_file :: "string \<Rightarrow> bool" where
  "js_file file =
     ((case file of [] \<Rightarrow> True | c # _ \<Rightarrow> c \<noteq> CHR ''.'')
      \<and> drop (length file - 3) file = ''.js'')"

text \<open>The \<^verbatim>\<open>map\<close> of lines 148 to 164 loads every script eagerly; the first exception of
  \<^verbatim>\<open>require\<close> ends it.\<close>

fun load_files :: "world \<Rightarrow> string \<Rightarrow> string list \<Rightarrow> error + AutoMigrationFile list" where
  "load_files w dir [] = Inr []"
| "load_files w dir (file # files) =
     (case require w (path_join w dir file) of
        Inl e \<Rightarrow> Inl e
      | Inr m \<Rightarrow>
          (case load_files w dir files of
             Inl e \<Rightarrow> Inl e
           | Inr fs \<Rightarrow>
               Inr (\<lparr>name = file, fullPath = path_join w dir file, migration = m\<rparr> # fs)))"

definition migrationFiles :: "world \<Rightarrow> string \<Rightarrow> bool \<Rightarrow> error + AutoMigrationFile list" where
  "migrationFiles w migrationsDir rollback =
     (case readdirSync w migrationsDir of
        Inl e \<Rightarrow> Inl e
      | Inr entries \<Rightarrow>
          (case load_files w migrationsDir (filter js_file entries) of
             Inl e \<Rightarrow> Inl e
           | Inr fs \<Rightarrow> Inr (array_sort w (by_revision rollback) fs)))"

subsection \<open>\<^verbatim>\<open>getMigrator\<close>\<close>

text \<open>The callback of the \<^verbatim>\<open>map\<close> in lines 65 to 77, for one file. \<^verbatim>\<open>migration.up.bind\<close> and
  \<^verbatim>\<open>migration.down.bind\<close> throw a \<^verbatim>\<open>TypeError\<close> when the loaded object has no such function.\<close>

definition prepare :: "migration_options \<Rightarrow> AutoMigrationFile \<Rightarrow> error + AutoMigration" where
  "prepare migrationOptions file =
     (case migration file of
        None \<Rightarrow>
          Inl (Error (''Unable to load migration from '' @ [CHR 0x22] @ fullPath file @ [CHR 0x22]))
      | Some m \<Rightarrow>
          if \<not> up_function m then Inl TypeError
          else if \<not> down_function m then Inl TypeError
          else
            Inr (m\<lparr>pos := (if lt (Num 0) (step migrationOptions) then step migrationOptions else pos m),
                   useTransaction := use_transaction migrationOptions,
                   mig_name := Some (name file)\<rparr>))"

text \<open>The \<^verbatim>\<open>map\<close> of \<^verbatim>\<open>getMigrator\<close>: the list of prepared migrations that the Umzug instance is
  built over. The construction itself is the field \<open>new_Umzug\<close> of the world.\<close>

fun getMigrator :: "AutoMigrationFile list \<Rightarrow> migration_options \<Rightarrow> error + AutoMigration list" where
  "getMigrator [] migrationOptions = Inr []"
| "getMigrator (file # files) migrationOptions =
     (case prepare migrationOptions file of
        Inl e \<Rightarrow> Inl e
      | Inr m \<Rightarrow>
          (case getMigrator files migrationOptions of
             Inl e \<Rightarrow> Inl e
           | Inr ms \<Rightarrow> Inr (m # ms)))"

subsection \<open>Resolving the range\<close>

text \<open>The selectors \<^verbatim>\<open>toRev\<close> and \<^verbatim>\<open>fromRev\<close> are compared only after they were found
  truthy; an absent one reads as \<open>NaN\<close>.\<close>

fun to_number :: "number option \<Rightarrow> number" where
  "to_number None = NaN"
| "to_number (Some n) = n"

text \<open>\<^verbatim>\<open>migrationFiles.find(e => e.migration ? e.migration.info.revision === wanted : false)\<close>:
  the first file, in catalog order, whose loaded migration carries the revision.\<close>

definition find_revision :: "AutoMigrationFile list \<Rightarrow> number option \<Rightarrow> AutoMigrationFile option" where
  "find_revision files wanted =
     List.find (\<lambda>e. case migration e of
                      Some m \<Rightarrow> strict_eq (info_revision m) (to_number wanted)
                    | None \<Rightarrow> False) files"

text \<open>Lines 203 to 241: the value of \<^verbatim>\<open>methodOptions\<close>.\<close>

definition methodOptions :: "AutoMigrationFile list \<Rightarrow> options \<Rightarrow> method_options" where
  "methodOptions files opts =
     (let toMigration = opt_to opts;
          fromMigration = opt_from opts;
          toRev = opt_toRev opts;
          fromRev = opt_fromRev opts;
          rollback = opt_rollback opts;
          unchanged = \<lparr>mo_to = toMigration, mo_from = fromMigration\<rparr>
      in if \<not> truthy_string toMigration \<and> truthy_number toRev
            \<and> \<not> truthy_string fromMigration \<and> truthy_number fromRev
         then
           (if (lt (to_number toRev) (to_number fromRev) \<and> rollback)
               \<or> (lt (to_number fromRev) (to_number toRev) \<and> \<not> rollback)
            then
              (case find_revision files toRev of
                 None \<Rightarrow> unchanged
               | Some t \<Rightarrow>
                   (case find_revision files fromRev of
                      None \<Rightarrow> unchanged
                    | Some f \<Rightarrow> \<lparr>mo_to = Some (name t), mo_from = Some (name f)\<rparr>))
            else unchanged)
         else if \<not> truthy_string toMigration \<and> truthy_number toRev
                 \<and> \<not> truthy_string fromMigration \<and> \<not> truthy_number fromRev
         then
           (case find_revision files toRev of
              None \<Rightarrow> unchanged
            | Some t \<Rightarrow> \<lparr>mo_to = Some (name t), mo_from = fromMigration\<rparr>)
         else if \<not> truthy_string toMigration \<and> \<not> truthy_number toRev
                 \<and> \<not> truthy_string fromMigration \<and> truthy_number fromRev
         then
           (case find_revision files fromRev of
              None \<Rightarrow> unchanged
            | Some f \<Rightarrow> \<lparr>mo_to = toMigration, mo_from = Some (name f)\<rparr>)
         else unchanged)"

subsection \<open>\<^verbatim>\<open>Main\<close>\<close>

text \<open>What a run does to the migrator, in order, and how it ends: with \<^verbatim>\<open>process.exit\<close>,
  by returning from \<^verbatim>\<open>Main\<close>, or with an exception leaving \<^verbatim>\<open>Main\<close>.\<close>

datatype call = Executed | Pending | Up method_options | Down method_options

datatype outcome = Exit nat | Returned | Threw error

text \<open>The branch for \<^verbatim>\<open>--list\<close> (lines 189 to 200).\<close>

definition list_migrations :: "world \<Rightarrow> AutoMigration list \<Rightarrow> call list \<times> outcome" where
  "list_migrations w migrator =
     (case umzug_executed w migrator of
        Inl e \<Rightarrow> ([Executed], Threw e)
      | Inr executed \<Rightarrow>
          (case umzug_pending w migrator of
             Inl e \<Rightarrow> ([Executed, Pending], Threw e)
           | Inr pending \<Rightarrow> ([Executed, Pending], Exit 0)))"

text \<open>The \<^verbatim>\<open>try\<close> block of lines 202 to 258; its \<^verbatim>\<open>catch\<close> exits with code 1.\<close>

definition migrate :: "world \<Rightarrow> AutoMigration list \<Rightarrow> AutoMigrationFile list \<Rightarrow> options \<Rightarrow> call list \<times> outcome" where
  "migrate w migrator files opts =
     (let mo = methodOptions files opts
      in if \<not> opt_rollback opts
         then (case umzug_up w migrator mo of
                 Inl migError \<Rightarrow> ([Up mo], Exit 1)
               | Inr executed \<Rightarrow> ([Up mo], Exit 0))
         else (case umzug_down w migrator mo of
                 Inl migError \<Rightarrow> ([Down mo], Exit 1)
               | Inr executed \<Rightarrow> ([Down mo], Exit 0)))"

text \<open>\<^verbatim>\<open>parseInt(options.pos)\<close> (line 128).\<close>

definition fromPos :: "options \<Rightarrow> number" where
  "fromPos opts = parseInt (opt_pos opts)"

text \<open>The part of \<^verbatim>\<open>Main\<close> after the directory checks and the help text (lines 122 to 258).
  \<^verbatim>\<open>getMigrator\<close> writes \<^verbatim>\<open>pos\<close>, \<^verbatim>\<open>useTransaction\<close> and \<^verbatim>\<open>name\<close> into the loaded migration
  objects; the range resolution reads only \<^verbatim>\<open>info.revision\<close> and the file names, which
  are not written.\<close>

definition run_migrations :: "world \<Rightarrow> options \<Rightarrow> string \<Rightarrow> string \<Rightarrow> call list \<times> outcome" where
  "run_migrations w opts migrationsDir modelsDir =
     (case require_models w modelsDir of
        Inl e \<Rightarrow> ([], Threw e)
      | Inr sequelize \<Rightarrow>
          (case migrationFiles w migrationsDir (opt_rollback opts) of
             Inl e \<Rightarrow> ([], Threw e)
           | Inr files \<Rightarrow>
               (case getMigrator files
                       \<lparr>use_transaction = \<not> opt_no_transaction opts, step = fromPos opts\<rparr> of
                  Inl e \<Rightarrow> ([], Threw e)
                | Inr migrator \<Rightarrow>
                    (case new_Umzug w migrator of
                       Inl e \<Rightarrow> ([], Threw e)
                     | Inr umzug \<Rightarrow>
                         if opt_list opts then list_migrations w migrator
                         else migrate w migrator files opts))))"

definition Main :: "world \<Rightarrow> call list \<times> outcome" where
  "Main w =
     (case commandLineArgs w of
        Inl e \<Rightarrow> ([], Threw e)
      | Inr opts \<Rightarrow>
          (case pathConfig w opts of
             Inl e \<Rightarrow> ([], Threw e)
           | Inr (migrationsDir, modelsDir) \<Rightarrow>
               if \<not> existsSync w modelsDir then ([], Returned)
               else if \<not> existsSync w migrationsDir then ([], Returned)
               else if opt_help opts then ([], Exit 0)
               else run_migrations w opts migrationsDir modelsDir))"

text \<open>The asynchronous wrapper of lines 261 to 268 turns an exception of \<^verbatim>\<open>Main\<close> into
  \<^verbatim>\<open>process.exit(1)\<close>. A process that ends without \<^verbatim>\<open>process.exit\<close> has exit code 0.\<close>

definition run :: "world \<Rightarrow> call list \<times> outcome" where
  "run w = (case Main w of (calls, Threw e) \<Rightarrow> (calls, Exit 1) | r \<Rightarrow> r)"

fun exit_code :: "outcome \<Rightarrow> nat" where
  "exit_code (Exit n) = n"
| "exit_code Returned = 0"
| "exit_code (Threw e) = 1"

subsection \<open>Notions for the statements and sample data\<close>


text \<open>A file carries revision \<open>n\<close> when its loaded migration has \<^verbatim>\<open>info.revision\<close> equal
  to \<open>n\<close>: the test of the \<^verbatim>\<open>find\<close> callbacks.\<close>

definition carries_revision :: "rat \<Rightarrow> AutoMigrationFile \<Rightarrow> bool" where
  "carries_revision n e =
     (case migration e of Some m \<Rightarrow> info_revision m = Num n | None \<Rightarrow> False)"

text \<open>A file is usable when \<^verbatim>\<open>getMigrator\<close> accepts it: its export is truthy and has the
  functions \<^verbatim>\<open>up\<close> and \<^verbatim>\<open>down\<close>. A script loads as a migration when \<^verbatim>\<open>require\<close> returns such
  an export.\<close>

definition usable :: "AutoMigrationFile \<Rightarrow> bool" where
  "usable f = (case migration f of Some m \<Rightarrow> up_function m \<and> down_function m | None \<Rightarrow> False)"


text \<open>A sample world for the closed instances of the theorems: every directory exists,
  every script loads and carries the revision its file name starts with, the engine
  reverses an array it cannot sort, and Umzug reports success.\<close>

definition demo_migration :: "number \<Rightarrow> AutoMigration" where
  "demo_migration r =
     \<lparr>info_revision = r, info_name = ''demo'', info_created = '''', info_comment = '''',
      pos = Num 0, useTransaction = True, mig_name = None,
      up_function = True, down_function = True\<rparr>"

definition demo_options :: options where
  "demo_options =
     \<lparr>opt_to = None, opt_from = None, opt_toRev = None, opt_fromRev = None,
      opt_rollback = False, opt_pos = ''0'', opt_no_transaction = False, opt_list = False,
      opt_migrations_path = None, opt_models_path = None, opt_help = False\<rparr>"

definition demo_world :: "string list \<Rightarrow> options \<Rightarrow> world" where
  "demo_world entries opts =
     \<lparr>commandLineArgs = Inr opts,
      pathConfig = (\<lambda>_. Inr (''migrations'', ''models'')),
      existsSync = (\<lambda>_. True),
      require_models = (\<lambda>_. Inr ()),
      readdirSync = (\<lambda>_. Inr entries),
      path_join = (\<lambda>dir file. dir @ ''/'' @ file),
      require = (\<lambda>p. Inr (Some (demo_migration (revision_of_name p)))),
      sort_order = (\<lambda>table. rev [0..<length table]),
      new_Umzug = (\<lambda>_. Inr ()),
      umzug_executed = (\<lambda>_. Inr []),
      umzug_pending = (\<lambda>ms. Inr (map info_name ms)),
      umzug_up = (\<lambda>ms _. Inr (map info_name ms)),
      umzug_down = (\<lambda>_ _. Inr [])\<rparr>"

definition demo_entries :: "string list" where
  "demo_entries = [''30-c.js'', ''10-a.js'', ''.hidden.js'', ''20-b.js'', ''notes.md'']"

definition demo_file :: "string \<Rightarrow> AutoMigrationFile" where
  "demo_file n = \<lparr>name = n, fullPath = ''migrations/'' @ n,
     migration = Some (demo_migration (revision_of_name n))\<rparr>"



definition demo_catalog :: "AutoMigrationFile list" where
  "demo_catalog =
     [demo_file ''10-a.js'', demo_file ''20-b.js'', demo_file ''30-c.js'', demo_file ''40-d.js'']"

definition zero_catalog :: "AutoMigrationFile list" where
  "zero_catalog = [demo_file ''0-init.js'', demo_file ''5-e.js'']"

definition two_files :: "AutoMigrationFile list" where
  "two_files = [demo_file ''10-a.js'', demo_file ''20-b.js'']"

text \<open>The same world without a models directory, with a migration that fails, with a
  script that does not load, and with a command line that the option parser refuses.\<close>

definition no_models_world :: world where
  "no_models_world = (demo_world demo_entries demo_options)\<lparr>existsSync := (\<lambda>d. d \<noteq> ''models'')\<rparr>"

definition failing_world :: world where
  "failing_world =
     (demo_world demo_entries demo_options)\<lparr>umzug_up := (\<lambda>_ _. Inl (Error ''migration failed''))\<rparr>"

definition broken_script_world :: world where
  "broken_script_world =
     (demo_world demo_entries demo_options)
       \<lparr>require := (\<lambda>p. if p = ''migrations/10-a.js'' then Inl (Error ''SyntaxError'')
                        else Inr (Some (demo_migration (revision_of_name p))))\<rparr>"

definition bad_option_world :: world where
  "bad_option_world =
     (demo_world demo_entries demo_options)\<lparr>commandLineArgs := Inl (Error ''UNKNOWN_OPTION'')\<rparr>"

section \<open>Properties\<close>

subsection \<open>Evaluation\<close>

text \<open>The length in bits of a numeral, computed digit by digit.\<close>

declare bitlen.simps [simp del]

lemma bitlen_numeral [simp]:
  "bitlen 0 = 0"
  "bitlen (Suc 0) = 1"
  "bitlen 1 = 1"
  "bitlen (numeral (Num.Bit0 k)) = Suc (bitlen (numeral k))"
  "bitlen (numeral (Num.Bit1 k)) = Suc (bitlen (numeral k))"
proof -
  show "bitlen 0 = 0" by (simp add: bitlen.simps)
  show s: "bitlen (Suc 0) = 1" by (simp add: bitlen.simps [of "Suc 0"] bitlen.simps [of 0])
  then show "bitlen 1 = 1" by simp
  have "numeral (Num.Bit0 k) div 2 = (numeral k :: nat)" by simp
  then show "bitlen (numeral (Num.Bit0 k)) = Suc (bitlen (numeral k))"
    by (subst bitlen.simps) simp
  have "numeral (Num.Bit1 k) div 2 = (numeral k :: nat)" by simp
  then show "bitlen (numeral (Num.Bit1 k)) = Suc (bitlen (numeral k))"
    by (subst bitlen.simps) simp
qed

lemmas parse_defs = revision_of_name_def leading_token_def basename_def parseInt_def mathInt_def
  to_double_def is_white_def radix_digit_def digit_of_def digit_val_def

lemma parseInt_examples:
  "parseInt ''0x1F'' = Num 31" "parseInt ''  42abc'' = Num 42" "parseInt ''abc'' = NaN"
  "parseInt ''-7'' = Num (- 7)" "parseInt ''2.7'' = Num 2" "parseInt ''1e+21'' = Num 1"
  "parseInt ''null'' = NaN" "parseInt '''' = NaN"
  by (simp_all add: parse_defs)

lemma js_file_demo: "filter js_file demo_entries = [''30-c.js'', ''10-a.js'', ''20-b.js'']"
  by (simp add: demo_entries_def js_file_def)

lemma revision_demo:
  "revision_of_name ''30-c.js'' = Num 30" "revision_of_name ''10-a.js'' = Num 10"
  "revision_of_name ''20-b.js'' = Num 20"
  "revision_of_name ''migrations/30-c.js'' = Num 30" "revision_of_name ''migrations/10-a.js'' = Num 10"
  "revision_of_name ''migrations/20-b.js'' = Num 20"
  by (simp_all add: parse_defs)

lemma revision_demo2:
  "revision_of_name ''40-d.js'' = Num 40" "revision_of_name ''0-init.js'' = Num 0"
  "revision_of_name ''5-e.js'' = Num 5"
  by (simp_all add: parse_defs)



lemmas demo_files = demo_catalog_def zero_catalog_def demo_file_def demo_migration_def
  revision_demo revision_demo2

lemma demo_world_fields:
  "commandLineArgs (demo_world es opts) = Inr opts"
  "pathConfig (demo_world es opts) opts' = Inr (''migrations'', ''models'')"
  "existsSync (demo_world es opts) d"
  "require_models (demo_world es opts) d = Inr ()"
  "readdirSync (demo_world es opts) d = Inr es"
  "path_join (demo_world es opts) d f = d @ ''/'' @ f"
  "require (demo_world es opts) p = Inr (Some (demo_migration (revision_of_name p)))"
  "new_Umzug (demo_world es opts) ms = Inr ()"
  by (simp_all add: demo_world_def)

lemma demo_file_name: "name (demo_file n) = n"
  by (simp add: demo_file_def)

lemma fromPos_examples:
  "fromPos (demo_options\<lparr>opt_pos := ''2''\<rparr>) = Num 2"
  "fromPos (demo_options\<lparr>opt_pos := ''2.7''\<rparr>) = Num 2"
  "fromPos (demo_options\<lparr>opt_pos := ''1e+21''\<rparr>) = Num 1"
  "fromPos (demo_options\<lparr>opt_pos := ''null''\<rparr>) = NaN"
  by (simp_all add: fromPos_def parse_defs)

subsection \<open>Integers that are read exactly\<close>




subsection \<open>Sorting\<close>








lemma lt_asym: "lt a b \<Longrightarrow> \<not> lt b a"
  by (cases a; cases b) auto

lemma lt_trans: "lt a b \<Longrightarrow> lt b c \<Longrightarrow> lt a c"
  by (cases a; cases b; cases c) auto

lemma lt_total: "a \<noteq> NaN \<Longrightarrow> b \<noteq> NaN \<Longrightarrow> \<not> lt a b \<Longrightarrow> \<not> lt b a \<Longrightarrow> a = b"
  by (cases a; cases b) auto





lemma by_revision_sign:
  "(by_revision rb a b = 0) = (\<not> lt (revision a) (revision b) \<and> \<not> lt (revision b) (revision a))"
  "(by_revision False a b < 0) = lt (revision a) (revision b)"
  "(0 < by_revision False a b) = (\<not> lt (revision a) (revision b) \<and> lt (revision b) (revision a))"
  "(by_revision True a b < 0) = (\<not> lt (revision a) (revision b) \<and> lt (revision b) (revision a))"
  "(0 < by_revision True a b) = lt (revision a) (revision b)"
  by (auto simp: by_revision_def revision_def Let_def)

lemma by_revision_consistent:
  assumes "\<forall>f \<in> set xs. revision f \<noteq> NaN"
  shows "consistent (by_revision rb) xs"
proof -
  have eq: "revision a = revision b \<Longrightarrow> \<not> lt (revision a) (revision b)" for a b
    by (metis lt_asym)
  show ?thesis
    unfolding consistent_def
  proof (intro ballI conjI impI)
    fix a assume "a \<in> set xs"
    show "by_revision rb a a = 0"
      by (auto simp: by_revision_sign dest: lt_asym)
  next
    fix a b assume "by_revision rb a b = 0"
    then show "by_revision rb b a = 0" by (simp add: by_revision_sign)
  next
    fix a b c assume a: "a \<in> set xs" and b: "b \<in> set xs" and c: "c \<in> set xs"
      and "by_revision rb a b = 0 \<and> by_revision rb b c = 0"
    then have "revision a = revision b" "revision b = revision c"
      using assms by (auto simp: by_revision_sign intro: lt_total)
    then show "by_revision rb a c = 0"
      by (auto simp: by_revision_sign dest: lt_asym)
  next
    fix a b c assume "by_revision rb a b < 0 \<and> by_revision rb b c < 0"
    then show "by_revision rb a c < 0"
      by (cases rb) (auto simp: by_revision_sign dest: lt_asym lt_trans)
  next
    fix a b c assume "0 < by_revision rb a b \<and> 0 < by_revision rb b c"
    then show "0 < by_revision rb a c"
      by (cases rb) (auto simp: by_revision_sign dest: lt_asym lt_trans)
  qed
qed

lemma array_sort_by_revision:
  "\<forall>f \<in> set xs. revision f \<noteq> NaN \<Longrightarrow>
   array_sort w (by_revision rb) xs = stable_sort (by_revision rb) xs"
  by (simp add: array_sort_def by_revision_consistent)






lemma migrationFiles_sorted:
  assumes "readdirSync w dir = Inr entries"
    and "load_files w dir (filter js_file entries) = Inr fs"
    and "\<forall>f \<in> set fs. revision f \<noteq> NaN"
  shows "migrationFiles w dir rb = Inr (stable_sort (by_revision rb) fs)"
  using assms by (simp add: migrationFiles_def array_sort_by_revision)

lemma load_files_cong:
  "require w = require w' \<Longrightarrow> path_join w = path_join w' \<Longrightarrow>
   load_files w dir names = load_files w' dir names"
  by (induction names) (simp_all split: sum.splits)

lemma migrationFiles_cong:
  assumes "readdirSync w = readdirSync w'" and "require w = require w'"
    and "path_join w = path_join w'" and "sort_order w = sort_order w'"
  shows "migrationFiles w dir rb = migrationFiles w' dir rb"
  using assms load_files_cong [OF assms(2,3)]
  by (auto simp: migrationFiles_def array_sort_def split: sum.splits)

subsection \<open>The sample catalogs\<close>

lemma demo_loaded:
  "load_files (demo_world es opts) ''migrations'' [''30-c.js'', ''10-a.js'', ''20-b.js''] =
   Inr [demo_file ''30-c.js'', demo_file ''10-a.js'', demo_file ''20-b.js'']"
  by (simp add: demo_world_fields demo_file_def revision_demo)

lemma demo_revisions:
  "map revision [demo_file ''30-c.js'', demo_file ''10-a.js'', demo_file ''20-b.js'']
     = [Num 30, Num 10, Num 20]"
  by (simp add: revision_def demo_file_def revision_demo)

lemma demo_catalog_sorted:
  "migrationFiles (demo_world demo_entries opts) ''migrations'' rb =
   Inr (stable_sort (by_revision rb)
          [demo_file ''30-c.js'', demo_file ''10-a.js'', demo_file ''20-b.js''])"
proof (rule migrationFiles_sorted)
  show "readdirSync (demo_world demo_entries opts) ''migrations'' = Inr demo_entries"
    by (simp add: demo_world_fields)
  show "load_files (demo_world demo_entries opts) ''migrations'' (filter js_file demo_entries) =
      Inr [demo_file ''30-c.js'', demo_file ''10-a.js'', demo_file ''20-b.js'']"
    by (simp only: js_file_demo demo_loaded)
  show "\<forall>f \<in> set [demo_file ''30-c.js'', demo_file ''10-a.js'', demo_file ''20-b.js''].
      revision f \<noteq> NaN"
    using demo_revisions by simp
qed

lemma demo_catalog_up:
  "migrationFiles (demo_world demo_entries opts) ''migrations'' False =
   Inr [demo_file ''10-a.js'', demo_file ''20-b.js'', demo_file ''30-c.js'']"
  by (simp add: demo_catalog_sorted by_revision_def demo_file_name revision_demo)




lemma failing_catalog:
  "migrationFiles failing_world ''migrations'' False =
   Inr [demo_file ''10-a.js'', demo_file ''20-b.js'', demo_file ''30-c.js'']"
proof -
  have "migrationFiles failing_world ''migrations'' False =
      migrationFiles (demo_world demo_entries demo_options) ''migrations'' False"
    by (rule migrationFiles_cong) (simp_all add: failing_world_def)
  then show ?thesis by (simp add: demo_catalog_up)
qed


subsection \<open>The catalog is ordered by revision\<close>



subsection \<open>Looking a revision up\<close>

lemma find_revision_Num:
  "find_revision files (Some (Num n)) = List.find (carries_revision n) files"
proof -
  have "(\<lambda>e. case migration e of Some m \<Rightarrow> strict_eq (info_revision m) (Num n) | None \<Rightarrow> False)
        = carries_revision n"
  proof
    fix e
    show "(case migration e of Some m \<Rightarrow> strict_eq (info_revision m) (Num n) | None \<Rightarrow> False)
          = carries_revision n e"
    proof (cases "migration e")
      case None
      then show ?thesis by (simp add: carries_revision_def)
    next
      case (Some m)
      then show ?thesis by (cases "info_revision m") (auto simp: carries_revision_def)
    qed
  qed
  moreover have "find_revision files (Some (Num n)) =
      List.find (\<lambda>e. case migration e of Some m \<Rightarrow> strict_eq (info_revision m) (Num n) | None \<Rightarrow> False) files"
    unfolding find_revision_def to_number.simps ..
  ultimately show ?thesis by simp
qed

lemma find_revision_None_iff:
  "(find_revision files (Some (Num n)) = None) = (\<forall>e \<in> set files. \<not> carries_revision n e)"
  by (auto simp: find_revision_Num find_None_iff)

lemma find_revision_SomeD:
  "find_revision files (Some (Num n)) = Some a \<Longrightarrow> a \<in> set files \<and> carries_revision n a"
  by (auto simp: find_revision_Num find_Some_iff)

lemma methodOptions_falsy_toRev:
  "\<not> truthy_number (opt_toRev opts) \<Longrightarrow>
   methodOptions files opts = methodOptions files (opts\<lparr>opt_toRev := None\<rparr>)"
  by (simp add: methodOptions_def Let_def)

lemma methodOptions_falsy_fromRev:
  "\<not> truthy_number (opt_fromRev opts) \<Longrightarrow>
   methodOptions files opts = methodOptions files (opts\<lparr>opt_fromRev := None\<rparr>)"
  by (simp add: methodOptions_def Let_def)

subsection \<open>Both revisions given\<close>

text \<open>
  Claim C2, amended. Let \<^verbatim>\<open>toRev = t\<close> and \<^verbatim>\<open>fromRev = f\<close> both be given and neither \<^verbatim>\<open>to\<close> nor
  \<^verbatim>\<open>from\<close>. When \<open>t\<close> and \<open>f\<close> are truthy (neither 0 nor \<open>NaN\<close>), names are produced only if
  the pair fits the direction (\<open>f < t\<close> for a forward run, \<open>t < f\<close> for a rollback); a
  pair that does not fit leaves both end points unresolved; when the pair fits, both
  names are set if both revisions are found in the catalog and none is set otherwise.
  A value that is 0 or \<open>NaN\<close> is treated as if the selector had not been given.
\<close>

theorem two_revisions:
  assumes "opt_to opts = None" and "opt_from opts = None"
    and "opt_toRev opts = Some t" and "opt_fromRev opts = Some f"
  shows "(truthy_number (Some t) \<and> truthy_number (Some f) \<longrightarrow>
            (mo_to (methodOptions files opts) \<noteq> None \<or> mo_from (methodOptions files opts) \<noteq> None
               \<longrightarrow> (if opt_rollback opts then lt t f else lt f t))
          \<and> (\<not> (if opt_rollback opts then lt t f else lt f t)
               \<longrightarrow> methodOptions files opts = \<lparr>mo_to = None, mo_from = None\<rparr>)
          \<and> methodOptions files opts =
              (if (if opt_rollback opts then lt t f else lt f t)
               then (case find_revision files (Some t) of
                       None \<Rightarrow> \<lparr>mo_to = None, mo_from = None\<rparr>
                     | Some a \<Rightarrow>
                         (case find_revision files (Some f) of
                            None \<Rightarrow> \<lparr>mo_to = None, mo_from = None\<rparr>
                          | Some b \<Rightarrow> \<lparr>mo_to = Some (name a), mo_from = Some (name b)\<rparr>))
               else \<lparr>mo_to = None, mo_from = None\<rparr>))
       \<and> (\<not> truthy_number (Some t) \<longrightarrow>
            methodOptions files opts = methodOptions files (opts\<lparr>opt_toRev := None\<rparr>))
       \<and> (\<not> truthy_number (Some f) \<longrightarrow>
            methodOptions files opts = methodOptions files (opts\<lparr>opt_fromRev := None\<rparr>))"
proof -
  let ?fits = "if opt_rollback opts then lt t f else lt f t"
  have truthy: "truthy_number (Some t) \<and> truthy_number (Some f) \<longrightarrow>
            (mo_to (methodOptions files opts) \<noteq> None \<or> mo_from (methodOptions files opts) \<noteq> None
               \<longrightarrow> ?fits)
          \<and> (\<not> ?fits \<longrightarrow> methodOptions files opts = \<lparr>mo_to = None, mo_from = None\<rparr>)
          \<and> methodOptions files opts =
              (if ?fits
               then (case find_revision files (Some t) of
                       None \<Rightarrow> \<lparr>mo_to = None, mo_from = None\<rparr>
                     | Some a \<Rightarrow>
                         (case find_revision files (Some f) of
                            None \<Rightarrow> \<lparr>mo_to = None, mo_from = None\<rparr>
                          | Some b \<Rightarrow> \<lparr>mo_to = Some (name a), mo_from = Some (name b)\<rparr>))
               else \<lparr>mo_to = None, mo_from = None\<rparr>)"
  proof (rule impI)
    assume tf: "truthy_number (Some t) \<and> truthy_number (Some f)"
    have eq: "methodOptions files opts =
              (if ?fits
               then (case find_revision files (Some t) of
                       None \<Rightarrow> \<lparr>mo_to = None, mo_from = None\<rparr>
                     | Some a \<Rightarrow>
                         (case find_revision files (Some f) of
                            None \<Rightarrow> \<lparr>mo_to = None, mo_from = None\<rparr>
                          | Some b \<Rightarrow> \<lparr>mo_to = Some (name a), mo_from = Some (name b)\<rparr>))
               else \<lparr>mo_to = None, mo_from = None\<rparr>)"
      using assms tf by (auto simp: methodOptions_def Let_def split: option.splits)
    have "mo_to (methodOptions files opts) \<noteq> None \<or> mo_from (methodOptions files opts) \<noteq> None
            \<longrightarrow> ?fits"
      by (subst eq, subst eq) (simp split: if_splits)
    moreover have "\<not> ?fits \<longrightarrow> methodOptions files opts = \<lparr>mo_to = None, mo_from = None\<rparr>"
      by (subst eq) simp
    ultimately show "(mo_to (methodOptions files opts) \<noteq> None \<or> mo_from (methodOptions files opts) \<noteq> None
               \<longrightarrow> ?fits)
          \<and> (\<not> ?fits \<longrightarrow> methodOptions files opts = \<lparr>mo_to = None, mo_from = None\<rparr>)
          \<and> methodOptions files opts =
              (if ?fits
               then (case find_revision files (Some t) of
                       None \<Rightarrow> \<lparr>mo_to = None, mo_from = None\<rparr>
                     | Some a \<Rightarrow>
                         (case find_revision files (Some f) of
                            None \<Rightarrow> \<lparr>mo_to = None, mo_from = None\<rparr>
                          | Some b \<Rightarrow> \<lparr>mo_to = Some (name a), mo_from = Some (name b)\<rparr>))
               else \<lparr>mo_to = None, mo_from = None\<rparr>)"
      using eq by blast
  qed
  have a: "\<not> truthy_number (Some t) \<longrightarrow>
            methodOptions files opts = methodOptions files (opts\<lparr>opt_toRev := None\<rparr>)"
    using assms(3) methodOptions_falsy_toRev [of opts files] by simp
  have b: "\<not> truthy_number (Some f) \<longrightarrow>
            methodOptions files opts = methodOptions files (opts\<lparr>opt_fromRev := None\<rparr>)"
    using assms(4) methodOptions_falsy_fromRev [of opts files] by simp
  from truthy a b show ?thesis by blast
qed

text \<open>The example of the specification: \<^verbatim>\<open>toRev = 10\<close>, \<^verbatim>\<open>fromRev = 40\<close> on a forward run
  leaves both end points unresolved; the same pair on a rollback resolves both; and
  \<^verbatim>\<open>toRev = NaN\<close> leaves \<^verbatim>\<open>fromRev = 40\<close> to be resolved alone.\<close>

theorem two_revisions_witness:
  "methodOptions demo_catalog (demo_options\<lparr>opt_toRev := Some (Num 10), opt_fromRev := Some (Num 40)\<rparr>)
       = \<lparr>mo_to = None, mo_from = None\<rparr>
   \<and> methodOptions demo_catalog
        (demo_options\<lparr>opt_toRev := Some (Num 10), opt_fromRev := Some (Num 40), opt_rollback := True\<rparr>)
       = \<lparr>mo_to = Some ''10-a.js'', mo_from = Some ''40-d.js''\<rparr>
   \<and> methodOptions demo_catalog (demo_options\<lparr>opt_toRev := Some NaN, opt_fromRev := Some (Num 40)\<rparr>)
       = methodOptions demo_catalog (demo_options\<lparr>opt_toRev := None, opt_fromRev := Some (Num 40)\<rparr>)
   \<and> methodOptions demo_catalog (demo_options\<lparr>opt_toRev := None, opt_fromRev := Some (Num 40)\<rparr>)
       = \<lparr>mo_to = None, mo_from = Some ''40-d.js''\<rparr>"
proof -
  let ?up = "demo_options\<lparr>opt_toRev := Some (Num 10), opt_fromRev := Some (Num 40)\<rparr>"
  let ?down = "demo_options\<lparr>opt_toRev := Some (Num 10), opt_fromRev := Some (Num 40), opt_rollback := True\<rparr>"
  let ?nan = "demo_options\<lparr>opt_toRev := Some NaN, opt_fromRev := Some (Num 40)\<rparr>"
  have f10: "find_revision demo_catalog (Some (Num 10)) = Some (demo_file ''10-a.js'')"
    and f40: "find_revision demo_catalog (Some (Num 40)) = Some (demo_file ''40-d.js'')"
    by (simp_all add: find_revision_def demo_files)
  have a: "methodOptions demo_catalog ?up = \<lparr>mo_to = None, mo_from = None\<rparr>"
    using two_revisions [of ?up "Num 10" "Num 40" demo_catalog] by (simp add: demo_options_def)
  have b: "methodOptions demo_catalog ?down = \<lparr>mo_to = Some ''10-a.js'', mo_from = Some ''40-d.js''\<rparr>"
    using two_revisions [of ?down "Num 10" "Num 40" demo_catalog]
    by (simp add: demo_options_def f10 f40 demo_file_def)
  have "opt_to ?nan = None" "opt_from ?nan = None" "opt_toRev ?nan = Some NaN"
    "opt_fromRev ?nan = Some (Num 40)" "\<not> truthy_number (Some NaN)"
    by (simp_all add: demo_options_def)
  with two_revisions [of ?nan NaN "Num 40" demo_catalog]
  have "methodOptions demo_catalog ?nan = methodOptions demo_catalog (?nan\<lparr>opt_toRev := None\<rparr>)"
    by blast
  then have c: "methodOptions demo_catalog ?nan =
      methodOptions demo_catalog (demo_options\<lparr>opt_toRev := None, opt_fromRev := Some (Num 40)\<rparr>)"
    by (simp add: demo_options_def)
  have d: "methodOptions demo_catalog (demo_options\<lparr>opt_toRev := None, opt_fromRev := Some (Num 40)\<rparr>)
       = \<lparr>mo_to = None, mo_from = Some ''40-d.js''\<rparr>"
    by (simp add: methodOptions_def demo_options_def f40 demo_file_def)
  from a b c d show ?thesis by simp
qed

text \<open>As first written the claim covers \<^verbatim>\<open>toRev = 0\<close>. Zero is falsy, so the first branch
  is skipped and the third one resolves \<^verbatim>\<open>from\<close> alone, although \<open>0 > 40\<close> does not hold on
  a forward run.\<close>

theorem two_revisions_zero_counterexample:
  "opt_to (demo_options\<lparr>opt_toRev := Some (Num 0), opt_fromRev := Some (Num 40)\<rparr>) = None
   \<and> opt_from (demo_options\<lparr>opt_toRev := Some (Num 0), opt_fromRev := Some (Num 40)\<rparr>) = None
   \<and> \<not> opt_rollback (demo_options\<lparr>opt_toRev := Some (Num 0), opt_fromRev := Some (Num 40)\<rparr>)
   \<and> \<not> (0::int) > 40
   \<and> methodOptions demo_catalog (demo_options\<lparr>opt_toRev := Some (Num 0), opt_fromRev := Some (Num 40)\<rparr>)
       = \<lparr>mo_to = None, mo_from = Some ''40-d.js''\<rparr>"
  by (simp add: methodOptions_def demo_options_def find_revision_def demo_files)

subsection \<open>The migrator receives the step\<close>

text \<open>
  Claim C3. With a step above zero the position ought to reach the first migration only,
  as the help text of \<^verbatim>\<open>--pos\<close> says (\<^verbatim>\<open>Run first migration at pos\<close>). The callback of
  \<^verbatim>\<open>getMigrator\<close> writes it into every migration: with two files and step 2, both
  migrations start at 2.
\<close>

theorem step_on_every_migration:
  "getMigrator two_files \<lparr>use_transaction = True, step = Num 2\<rparr> =
     Inr [demo_migration (Num 10)\<lparr>pos := Num 2, mig_name := Some ''10-a.js''\<rparr>,
          demo_migration (Num 20)\<lparr>pos := Num 2, mig_name := Some ''20-b.js''\<rparr>]
   \<and> map pos [demo_migration (Num 10)\<lparr>pos := Num 2, mig_name := Some ''10-a.js''\<rparr>,
          demo_migration (Num 20)\<lparr>pos := Num 2, mig_name := Some ''20-b.js''\<rparr>] = [Num 2, Num 2]"
  by (simp add: two_files_def prepare_def demo_files)

text \<open>The same for every catalog and every step above zero.\<close>

lemma getMigrator_pos:
  assumes "getMigrator files mo = Inr ms" and "lt (Num 0) (step mo)"
  shows "\<forall>m \<in> set ms. pos m = step mo"
  using assms
proof (induction files arbitrary: ms)
  case Nil
  then show ?case by simp
next
  case (Cons x xs)
  then show ?case
    by (auto simp: prepare_def split: sum.splits option.splits if_splits)
qed

subsection \<open>Runs that reach the migrator, and runs that do not\<close>


lemma load_files_fails:
  assumes "x \<in> set names" and "require w (path_join w dir x) = Inl e"
  shows "\<exists>e'. load_files w dir names = Inl e'"
  using assms by (induction names) (auto split: sum.splits)

lemma getMigrator_ok:
  assumes "\<forall>f \<in> set fs. usable f"
  shows "\<exists>ms. getMigrator fs mo = Inr ms"
  using assms
proof (induction fs)
  case Nil
  then show ?case by simp
next
  case (Cons x xs)
  then obtain ms where "getMigrator xs mo = Inr ms" by auto
  moreover from Cons.prems obtain m where "migration x = Some m" "up_function m" "down_function m"
    by (auto simp: usable_def split: option.splits)
  ultimately show ?case by (simp add: prepare_def)
qed

lemma prepare_fails: "\<not> usable x \<Longrightarrow> \<exists>e. prepare mo x = Inl e"
  by (auto simp: usable_def prepare_def split: option.splits)

lemma getMigrator_fails:
  assumes "x \<in> set fs" and "\<not> usable x"
  shows "\<exists>e. getMigrator fs mo = Inl e"
  using assms
proof (induction fs)
  case Nil
  then show ?case by simp
next
  case (Cons y ys)
  show ?case
  proof (cases "usable y")
    case True
    with Cons obtain e where "getMigrator ys mo = Inl e" by auto
    then show ?thesis by (simp split: sum.splits)
  next
    case False
    from prepare_fails [OF this] obtain e where "prepare mo y = Inl e" by blast
    then show ?thesis by simp
  qed
qed

lemma run_Main:
  "Main w = (calls, Threw e) \<Longrightarrow> run w = (calls, Exit 1)"
  "Main w = (calls, Exit n) \<Longrightarrow> run w = (calls, Exit n)"
  "Main w = (calls, Returned) \<Longrightarrow> run w = (calls, Returned)"
  by (simp_all add: run_def)

lemma run_calls: "fst (run w) = fst (Main w)"
  by (cases "Main w") (auto simp: run_def split: outcome.splits)

lemma Main_reaches:
  assumes "commandLineArgs w = Inr opts" and "pathConfig w opts = Inr (mdir, modir)"
    and "existsSync w modir \<and> existsSync w mdir" and "\<not> opt_help opts"
  shows "Main w = run_migrations w opts mdir modir"
  using assms by (simp add: Main_def)


lemma migrate_exit:
  "snd (migrate w migrator files opts) = Exit 0 \<or> snd (migrate w migrator files opts) = Exit 1"
  by (simp add: migrate_def Let_def split: sum.splits)

lemma list_migrations_calls:
  "\<exists>calls. fst (list_migrations w migrator) = Executed # calls \<and> set calls \<subseteq> {Pending}"
  by (simp add: list_migrations_def split: sum.splits)

lemma run_migrations_models:
  "require_models w modir = Inl e \<Longrightarrow> run_migrations w opts mdir modir = ([], Threw e)"
  by (simp add: run_migrations_def)

lemma run_migrations_readdir:
  "require_models w modir = Inr u \<Longrightarrow> readdirSync w mdir = Inl e \<Longrightarrow>
   run_migrations w opts mdir modir = ([], Threw e)"
  by (simp add: run_migrations_def migrationFiles_def)

lemma run_migrations_script:
  assumes "require_models w modir = Inr u" and "readdirSync w mdir = Inr entries"
    and "file \<in> set (filter js_file entries)" and "require w (path_join w mdir file) = Inl e"
  shows "\<exists>e'. run_migrations w opts mdir modir = ([], Threw e')"
proof -
  from load_files_fails [OF assms(3,4)] obtain e' where
    "load_files w mdir (filter js_file entries) = Inl e'" by blast
  with assms(1,2) show ?thesis by (simp add: run_migrations_def migrationFiles_def)
qed

lemma run_migrations_unusable:
  assumes "require_models w modir = Inr u"
    and "migrationFiles w mdir (opt_rollback opts) = Inr files"
    and "f \<in> set files" and "\<not> usable f"
  shows "\<exists>e'. run_migrations w opts mdir modir = ([], Threw e')"
proof -
  from getMigrator_fails [OF assms(3,4)] obtain e' where
    "getMigrator files \<lparr>use_transaction = \<not> opt_no_transaction opts, step = fromPos opts\<rparr> = Inl e'"
    by blast
  with assms(1,2) show ?thesis by (simp add: run_migrations_def)
qed

lemma run_migrations_umzug:
  assumes "require_models w modir = Inr u"
    and "migrationFiles w mdir (opt_rollback opts) = Inr files"
    and "getMigrator files \<lparr>use_transaction = \<not> opt_no_transaction opts, step = fromPos opts\<rparr>
           = Inr migrator"
    and "new_Umzug w migrator = Inl e"
  shows "run_migrations w opts mdir modir = ([], Threw e)"
  using assms by (simp add: run_migrations_def)

lemma run_migrations_migrator:
  assumes "require_models w modir = Inr u"
    and "migrationFiles w mdir (opt_rollback opts) = Inr files"
    and "getMigrator files \<lparr>use_transaction = \<not> opt_no_transaction opts, step = fromPos opts\<rparr>
           = Inr migrator"
    and "new_Umzug w migrator = Inr built"
  shows "run_migrations w opts mdir modir =
     (if opt_list opts then list_migrations w migrator else migrate w migrator files opts)"
  using assms by (simp add: run_migrations_def)

lemma exit_code_bound: "exit_code (snd (run w)) \<le> 1"
proof -
  have "snd (run w) = Exit 0 \<or> snd (run w) = Exit 1 \<or> snd (run w) = Returned"
    by (auto simp: run_def Main_def run_migrations_def list_migrations_def migrate_def Let_def
        split: sum.splits prod.splits outcome.splits)
  then show ?thesis by auto
qed

text \<open>The \<^verbatim>\<open>--list\<close> branch only queries the migrator.\<close>

lemma list_only_queries:
  assumes "commandLineArgs w = Inr opts" and "opt_list opts"
  shows "set (fst (run w)) \<subseteq> {Executed, Pending}"
proof -
  have "set (fst (list_migrations w migrator)) \<subseteq> {Executed, Pending}" for migrator
    using list_migrations_calls [of w migrator] by auto
  then have "set (fst (Main w)) \<subseteq> {Executed, Pending}"
    using assms
    by (auto simp: Main_def run_migrations_def split: sum.splits prod.splits)
  then show ?thesis by (simp add: run_calls)
qed

subsection \<open>A file name without a number\<close>




subsection \<open>Exit codes\<close>

text \<open>
  Claim C5, amended. Every error is surfaced with exit code 1: an exception of the
  option parser or of \<^verbatim>\<open>pathConfig\<close>, and, once the directories exist and \<^verbatim>\<open>--help\<close> is not
  given, a models module that does not load, a directory that cannot be read, a
  discovered script that does not load, a loaded file that is not usable, an Umzug
  instance that cannot be built, a failing \<^verbatim>\<open>executed\<close> or \<^verbatim>\<open>pending\<close> query, and a failing
  \<^verbatim>\<open>up\<close> or \<^verbatim>\<open>down\<close>. The exit code is 0 with \<^verbatim>\<open>--help\<close>, with \<^verbatim>\<open>--list\<close> when both queries
  succeed, and when \<^verbatim>\<open>up\<close> or \<^verbatim>\<open>down\<close> succeeds; no other exit code occurs. The one
  exception: a missing models or migrations directory is not an error of the run.
  \<^verbatim>\<open>Main\<close> returns before anything is loaded, \<^verbatim>\<open>process.exit\<close> is not called and the exit
  code is 0.
\<close>

theorem exit_codes:
  "(commandLineArgs w = Inl e \<longrightarrow> run w = ([], Exit 1))
   \<and> (commandLineArgs w = Inr opts \<and> pathConfig w opts = Inl e \<longrightarrow> run w = ([], Exit 1))
   \<and> (commandLineArgs w = Inr opts \<and> pathConfig w opts = Inr (mdir, modir) \<longrightarrow>
        (\<not> (existsSync w modir \<and> existsSync w mdir) \<longrightarrow>
           run w = ([], Returned) \<and> exit_code (snd (run w)) = 0)
      \<and> (existsSync w modir \<and> existsSync w mdir \<and> opt_help opts \<longrightarrow> run w = ([], Exit 0))
      \<and> (existsSync w modir \<and> existsSync w mdir \<and> \<not> opt_help opts \<longrightarrow>
           (require_models w modir = Inl e \<longrightarrow> run w = ([], Exit 1))
         \<and> (require_models w modir = Inr u \<longrightarrow>
              (readdirSync w mdir = Inl e \<longrightarrow> run w = ([], Exit 1))
            \<and> (readdirSync w mdir = Inr entries \<and> script \<in> set (filter js_file entries)
                 \<and> require w (path_join w mdir script) = Inl e \<longrightarrow> run w = ([], Exit 1))
            \<and> (migrationFiles w mdir (opt_rollback opts) = Inr files \<longrightarrow>
                 (f \<in> set files \<and> \<not> usable f \<longrightarrow> run w = ([], Exit 1))
               \<and> (getMigrator files
                     \<lparr>use_transaction = \<not> opt_no_transaction opts, step = fromPos opts\<rparr> = Inr migrator
                    \<longrightarrow>
                    (new_Umzug w migrator = Inl e \<longrightarrow> run w = ([], Exit 1))
                  \<and> (new_Umzug w migrator = Inr built \<longrightarrow>
                    (opt_list opts \<and> umzug_executed w migrator = Inl e
                       \<longrightarrow> run w = ([Executed], Exit 1))
                  \<and> (opt_list opts \<and> umzug_executed w migrator = Inr ex
                       \<and> umzug_pending w migrator = Inl e
                       \<longrightarrow> run w = ([Executed, Pending], Exit 1))
                  \<and> (opt_list opts \<and> umzug_executed w migrator = Inr ex
                       \<and> umzug_pending w migrator = Inr pe
                       \<longrightarrow> run w = ([Executed, Pending], Exit 0))
                  \<and> (\<not> opt_list opts \<and> \<not> opt_rollback opts
                       \<and> umzug_up w migrator (methodOptions files opts) = Inl e
                       \<longrightarrow> run w = ([Up (methodOptions files opts)], Exit 1))
                  \<and> (\<not> opt_list opts \<and> opt_rollback opts
                       \<and> umzug_down w migrator (methodOptions files opts) = Inl e
                       \<longrightarrow> run w = ([Down (methodOptions files opts)], Exit 1))
                  \<and> (\<not> opt_list opts \<and> \<not> opt_rollback opts
                       \<and> umzug_up w migrator (methodOptions files opts) = Inr names
                       \<longrightarrow> run w = ([Up (methodOptions files opts)], Exit 0))
                  \<and> (\<not> opt_list opts \<and> opt_rollback opts
                       \<and> umzug_down w migrator (methodOptions files opts) = Inr names
                       \<longrightarrow> run w = ([Down (methodOptions files opts)], Exit 0))))))))
   \<and> exit_code (snd (run w)) \<le> 1"
proof (intro conjI impI)
  assume "commandLineArgs w = Inl e"
  then show "run w = ([], Exit 1)" by (simp add: run_def Main_def)
next
  assume "commandLineArgs w = Inr opts \<and> pathConfig w opts = Inl e"
  then show "run w = ([], Exit 1)" by (simp add: run_def Main_def)
next
  assume "commandLineArgs w = Inr opts \<and> pathConfig w opts = Inr (mdir, modir)"
    and "\<not> (existsSync w modir \<and> existsSync w mdir)"
  then show "run w = ([], Returned)" by (auto simp: run_def Main_def)
  then show "exit_code (snd (run w)) = 0" by simp
next
  assume "commandLineArgs w = Inr opts \<and> pathConfig w opts = Inr (mdir, modir)"
    and "existsSync w modir \<and> existsSync w mdir \<and> opt_help opts"
  then show "run w = ([], Exit 0)" by (simp add: run_def Main_def)
next
  show "exit_code (snd (run w)) \<le> 1" by (rule exit_code_bound)
next
  assume a: "commandLineArgs w = Inr opts \<and> pathConfig w opts = Inr (mdir, modir)"
    and p: "existsSync w modir \<and> existsSync w mdir \<and> \<not> opt_help opts"
  then have main: "Main w = run_migrations w opts mdir modir"
    by (simp add: Main_reaches)
  {
    assume "require_models w modir = Inl e"
    from run_migrations_models [OF this] main show "run w = ([], Exit 1)"
      by (simp add: run_Main)
  }
  assume u: "require_models w modir = Inr u"
  {
    assume "readdirSync w mdir = Inl e"
    from run_migrations_readdir [OF u this] main show "run w = ([], Exit 1)"
      by (simp add: run_Main)
  }
  {
    assume "readdirSync w mdir = Inr entries \<and> script \<in> set (filter js_file entries)
                 \<and> require w (path_join w mdir script) = Inl e"
    then obtain e' where "run_migrations w opts mdir modir = ([], Threw e')"
      using run_migrations_script [OF u] by blast
    with main show "run w = ([], Exit 1)" by (simp add: run_Main)
  }
  assume files: "migrationFiles w mdir (opt_rollback opts) = Inr files"
  {
    assume "f \<in> set files \<and> \<not> usable f"
    then obtain e' where "run_migrations w opts mdir modir = ([], Threw e')"
      using run_migrations_unusable [OF u files] by blast
    with main show "run w = ([], Exit 1)" by (simp add: run_Main)
  }
  assume migrator: "getMigrator files
      \<lparr>use_transaction = \<not> opt_no_transaction opts, step = fromPos opts\<rparr> = Inr migrator"
  {
    assume "new_Umzug w migrator = Inl e"
    from run_migrations_umzug [OF u files migrator this] main show "run w = ([], Exit 1)"
      by (simp add: run_Main)
  }
  assume "new_Umzug w migrator = Inr built"
  from run_migrations_migrator [OF u files migrator this] main
  have m: "Main w = (if opt_list opts then list_migrations w migrator
                     else migrate w migrator files opts)"
    by simp
  {
    assume "opt_list opts \<and> umzug_executed w migrator = Inl e"
    with m show "run w = ([Executed], Exit 1)"
      by (simp add: run_def list_migrations_def)
  }
  {
    assume "opt_list opts \<and> umzug_executed w migrator = Inr ex
                       \<and> umzug_pending w migrator = Inl e"
    with m show "run w = ([Executed, Pending], Exit 1)"
      by (simp add: run_def list_migrations_def)
  }
  {
    assume "opt_list opts \<and> umzug_executed w migrator = Inr ex
                       \<and> umzug_pending w migrator = Inr pe"
    with m show "run w = ([Executed, Pending], Exit 0)"
      by (simp add: run_def list_migrations_def)
  }
  {
    assume "\<not> opt_list opts \<and> \<not> opt_rollback opts
                       \<and> umzug_up w migrator (methodOptions files opts) = Inl e"
    with m show "run w = ([Up (methodOptions files opts)], Exit 1)"
      by (simp add: run_def migrate_def)
  }
  {
    assume "\<not> opt_list opts \<and> opt_rollback opts
                       \<and> umzug_down w migrator (methodOptions files opts) = Inl e"
    with m show "run w = ([Down (methodOptions files opts)], Exit 1)"
      by (simp add: run_def migrate_def)
  }
  {
    assume "\<not> opt_list opts \<and> \<not> opt_rollback opts
                       \<and> umzug_up w migrator (methodOptions files opts) = Inr names"
    with m show "run w = ([Up (methodOptions files opts)], Exit 0)"
      by (simp add: run_def migrate_def)
  }
  {
    assume "\<not> opt_list opts \<and> opt_rollback opts
                       \<and> umzug_down w migrator (methodOptions files opts) = Inr names"
    with m show "run w = ([Down (methodOptions files opts)], Exit 0)"
      by (simp add: run_def migrate_def)
  }
qed

text \<open>The theorem at five worlds: no models directory, a refused command line, a script
  that does not load, a failing migration, and a run where everything succeeds.\<close>

theorem exit_codes_witness:
  "\<not> existsSync no_models_world ''models''
   \<and> run no_models_world = ([], Returned)
   \<and> commandLineArgs bad_option_world = Inl (Error ''UNKNOWN_OPTION'')
   \<and> run bad_option_world = ([], Exit 1)
   \<and> require broken_script_world ''migrations/10-a.js'' = Inl (Error ''SyntaxError'')
   \<and> run broken_script_world = ([], Exit 1)
   \<and> umzug_up failing_world [] \<lparr>mo_to = None, mo_from = None\<rparr> = Inl (Error ''migration failed'')
   \<and> snd (run failing_world) = Exit 1
   \<and> snd (run (demo_world demo_entries demo_options)) = Exit 0"
proof -
  let ?cat = "[demo_file ''10-a.js'', demo_file ''20-b.js'', demo_file ''30-c.js'']"
  let ?mo = "\<lparr>use_transaction = \<not> opt_no_transaction demo_options, step = fromPos demo_options\<rparr>"
  let ?ok = "demo_world demo_entries demo_options"
  have "\<forall>f \<in> set ?cat. usable f" by (simp add: usable_def demo_file_def demo_migration_def)
  from getMigrator_ok [OF this] obtain ms where ms: "getMigrator ?cat ?mo = Inr ms"
    by blast
  have flags: "\<not> opt_help demo_options" "\<not> opt_list demo_options" "\<not> opt_rollback demo_options"
    "opt_rollback demo_options = False"
    by (simp_all add: demo_options_def)
  have missing: "\<not> existsSync no_models_world ''models''"
    by (simp add: no_models_world_def)
  have a: "run no_models_world = ([], Returned)"
    using exit_codes [where w = no_models_world and opts = demo_options
        and mdir = "''migrations''" and modir = "''models''"] missing
    by (simp add: no_models_world_def demo_world_fields)
  have bad: "commandLineArgs bad_option_world = Inl (Error ''UNKNOWN_OPTION'')"
    by (simp add: bad_option_world_def)
  have b: "run bad_option_world = ([], Exit 1)"
    using exit_codes [where w = bad_option_world and e = "Error ''UNKNOWN_OPTION''"] bad
    by blast
  have broken: "require broken_script_world ''migrations/10-a.js'' = Inl (Error ''SyntaxError'')"
    "path_join broken_script_world ''migrations'' ''10-a.js'' = ''migrations/10-a.js''"
    "''10-a.js'' \<in> set (filter js_file demo_entries)"
    "commandLineArgs broken_script_world = Inr demo_options"
    "pathConfig broken_script_world demo_options = Inr (''migrations'', ''models'')"
    "existsSync broken_script_world ''models'' \<and> existsSync broken_script_world ''migrations''"
    "require_models broken_script_world ''models'' = Inr ()"
    "readdirSync broken_script_world ''migrations'' = Inr demo_entries"
    by (simp_all add: broken_script_world_def demo_world_fields js_file_demo)
  have c: "run broken_script_world = ([], Exit 1)"
    using exit_codes [where w = broken_script_world and opts = demo_options
        and mdir = "''migrations''" and modir = "''models''" and u = "()"
        and entries = demo_entries and script = "''10-a.js''" and e = "Error ''SyntaxError''"]
      broken flags
    by simp
  have up: "umzug_up failing_world ms (methodOptions ?cat demo_options) = Inl (Error ''migration failed'')"
    "umzug_up failing_world [] \<lparr>mo_to = None, mo_from = None\<rparr> = Inl (Error ''migration failed'')"
    by (simp_all add: failing_world_def)
  have d: "snd (run failing_world) = Exit 1"
    using exit_codes [where w = failing_world and opts = demo_options
        and mdir = "''migrations''" and modir = "''models''" and u = "()" and files = ?cat
        and migrator = ms and built = "()" and e = "Error ''migration failed''"] ms failing_catalog up flags
    by (simp add: failing_world_def demo_world_fields)
  have "\<exists>names. umzug_up ?ok ms (methodOptions ?cat demo_options) = Inr names"
    by (simp add: demo_world_def)
  then obtain names where ok: "umzug_up ?ok ms (methodOptions ?cat demo_options) = Inr names"
    by blast
  have e: "snd (run ?ok) = Exit 0"
    using exit_codes [where w = ?ok and opts = demo_options
        and mdir = "''migrations''" and modir = "''models''" and u = "()" and files = ?cat
        and migrator = ms and built = "()" and names = names] ms demo_catalog_up [of demo_options] ok flags
    by (simp add: demo_world_fields)
  from missing a bad b broken(1) c up(2) d e show ?thesis by simp
qed

text \<open>As first written the claim gives a missing directory a non-zero exit code.\<close>

theorem missing_directory_counterexample:
  "\<not> existsSync no_models_world ''models''
   \<and> pathConfig no_models_world demo_options = Inr (''migrations'', ''models'')
   \<and> commandLineArgs no_models_world = Inr demo_options
   \<and> run no_models_world = ([], Returned)
   \<and> exit_code (snd (run no_models_world)) = 0"
  by (simp add: no_models_world_def demo_world_def run_def Main_def)

subsection \<open>A name and a revision for the same end point\<close>

text \<open>
  Claim C6, amended. When a name that is not the empty string is given for an end point,
  the revision selector of that end point is ignored, whatever its value \<open>r\<close>: the name
  is passed on unchanged and the result is the same as without the revision selector.
\<close>

theorem name_selector_wins:
  "(opt_to opts = Some n \<and> n \<noteq> [] \<longrightarrow>
      mo_to (methodOptions files (opts\<lparr>opt_toRev := r\<rparr>)) = Some n
      \<and> methodOptions files (opts\<lparr>opt_toRev := r\<rparr>) = methodOptions files opts)
   \<and> (opt_from opts = Some n \<and> n \<noteq> [] \<longrightarrow>
      mo_from (methodOptions files (opts\<lparr>opt_fromRev := r\<rparr>)) = Some n
      \<and> methodOptions files (opts\<lparr>opt_fromRev := r\<rparr>) = methodOptions files opts)"
  by (simp add: methodOptions_def Let_def)

text \<open>The theorem at \<^verbatim>\<open>to = 20-b.js\<close> with \<^verbatim>\<open>toRev = 30\<close>, and the same for \<^verbatim>\<open>from\<close>.\<close>

theorem name_selector_wins_witness:
  "opt_to (demo_options\<lparr>opt_to := Some ''20-b.js''\<rparr>) = Some ''20-b.js''
   \<and> ''20-b.js'' \<noteq> []
   \<and> mo_to (methodOptions demo_catalog
        (demo_options\<lparr>opt_to := Some ''20-b.js'', opt_toRev := Some (Num 30)\<rparr>)) = Some ''20-b.js''
   \<and> opt_from (demo_options\<lparr>opt_from := Some ''20-b.js''\<rparr>) = Some ''20-b.js''
   \<and> mo_from (methodOptions demo_catalog
        (demo_options\<lparr>opt_from := Some ''20-b.js'', opt_fromRev := Some (Num 30)\<rparr>)) = Some ''20-b.js''"
proof -
  let ?t = "demo_options\<lparr>opt_to := Some ''20-b.js''\<rparr>"
  let ?f = "demo_options\<lparr>opt_from := Some ''20-b.js''\<rparr>"
  have t: "opt_to ?t = Some ''20-b.js'' \<and> ''20-b.js'' \<noteq> []"
    and f: "opt_from ?f = Some ''20-b.js'' \<and> ''20-b.js'' \<noteq> []"
    by (simp_all add: demo_options_def)
  from name_selector_wins [of ?t "''20-b.js''" demo_catalog "Some (Num 30)"] t
  have a: "mo_to (methodOptions demo_catalog (?t\<lparr>opt_toRev := Some (Num 30)\<rparr>)) = Some ''20-b.js''"
    by blast
  from name_selector_wins [of ?f "''20-b.js''" demo_catalog "Some (Num 30)"] f
  have b: "mo_from (methodOptions demo_catalog (?f\<lparr>opt_fromRev := Some (Num 30)\<rparr>)) = Some ''20-b.js''"
    by blast
  from a b t f show ?thesis by simp
qed

text \<open>As first written the claim covers the empty name. The empty string is falsy, so
  \<^verbatim>\<open>toRev = 30\<close> is resolved and replaces it.\<close>

theorem empty_name_counterexample:
  "opt_to (demo_options\<lparr>opt_to := Some '''', opt_toRev := Some (Num 30)\<rparr>) = Some ''''
   \<and> opt_toRev (demo_options\<lparr>opt_to := Some '''', opt_toRev := Some (Num 30)\<rparr>) = Some (Num 30)
   \<and> mo_to (methodOptions demo_catalog (demo_options\<lparr>opt_to := Some '''', opt_toRev := Some (Num 30)\<rparr>))
       = Some ''30-c.js''"
  by (simp add: methodOptions_def demo_options_def find_revision_def demo_files)

subsection \<open>One revision given\<close>

text \<open>
  Claim C7, amended. When \<^verbatim>\<open>toRev\<close> alone is given, with a value \<open>n\<close> other than zero, \<^verbatim>\<open>to\<close>
  becomes the name of the first file of the catalog that carries revision \<open>n\<close> (the
  \<^verbatim>\<open>info.revision\<close> of its loaded migration) and stays unresolved when no file carries it;
  \<^verbatim>\<open>from\<close> stays unresolved. The same holds for \<^verbatim>\<open>fromRev\<close> alone, with the roles swapped.
\<close>

theorem one_revision:
  assumes "opt_to opts = None" and "opt_from opts = None" and "n \<noteq> 0"
  shows "(opt_toRev opts = Some (Num n) \<and> opt_fromRev opts = None \<longrightarrow>
            methodOptions files opts =
              \<lparr>mo_to = map_option name (find_revision files (Some (Num n))), mo_from = None\<rparr>)
       \<and> (opt_fromRev opts = Some (Num n) \<and> opt_toRev opts = None \<longrightarrow>
            methodOptions files opts =
              \<lparr>mo_to = None, mo_from = map_option name (find_revision files (Some (Num n)))\<rparr>)
       \<and> (case find_revision files (Some (Num n)) of
             None \<Rightarrow> \<forall>e \<in> set files. \<not> carries_revision n e
           | Some a \<Rightarrow> a \<in> set files \<and> carries_revision n a)"
proof -
  have "opt_toRev opts = Some (Num n) \<and> opt_fromRev opts = None \<longrightarrow>
            methodOptions files opts =
              \<lparr>mo_to = map_option name (find_revision files (Some (Num n))), mo_from = None\<rparr>"
    using assms by (auto simp: methodOptions_def Let_def split: option.splits)
  moreover have "opt_fromRev opts = Some (Num n) \<and> opt_toRev opts = None \<longrightarrow>
            methodOptions files opts =
              \<lparr>mo_to = None, mo_from = map_option name (find_revision files (Some (Num n)))\<rparr>"
    using assms by (auto simp: methodOptions_def Let_def split: option.splits)
  moreover have "case find_revision files (Some (Num n)) of
             None \<Rightarrow> \<forall>e \<in> set files. \<not> carries_revision n e
           | Some a \<Rightarrow> a \<in> set files \<and> carries_revision n a"
    by (auto split: option.splits simp: find_revision_None_iff dest: find_revision_SomeD)
  ultimately show ?thesis by blast
qed

text \<open>The example of the specification: \<^verbatim>\<open>toRev = 30\<close> on the revisions 10, 20, 30, 40; then
  a revision that no file carries, and \<^verbatim>\<open>fromRev\<close> alone.\<close>

theorem one_revision_witness:
  "opt_to (demo_options\<lparr>opt_toRev := Some (Num 30)\<rparr>) = None
   \<and> opt_from (demo_options\<lparr>opt_toRev := Some (Num 30)\<rparr>) = None
   \<and> opt_fromRev (demo_options\<lparr>opt_toRev := Some (Num 30)\<rparr>) = None
   \<and> map revision demo_catalog = [Num 10, Num 20, Num 30, Num 40]
   \<and> methodOptions demo_catalog (demo_options\<lparr>opt_toRev := Some (Num 30)\<rparr>)
       = \<lparr>mo_to = Some (name (demo_file ''30-c.js'')), mo_from = None\<rparr>
   \<and> methodOptions demo_catalog (demo_options\<lparr>opt_toRev := Some (Num 35)\<rparr>)
       = \<lparr>mo_to = None, mo_from = None\<rparr>
   \<and> methodOptions demo_catalog (demo_options\<lparr>opt_fromRev := Some (Num 20)\<rparr>)
       = \<lparr>mo_to = None, mo_from = Some ''20-b.js''\<rparr>"
proof -
  have f: "find_revision demo_catalog (Some (Num 30)) = Some (demo_file ''30-c.js'')"
    "find_revision demo_catalog (Some (Num 35)) = None"
    "find_revision demo_catalog (Some (Num 20)) = Some (demo_file ''20-b.js'')"
    by (simp_all add: find_revision_def demo_files)
  have a: "methodOptions demo_catalog (demo_options\<lparr>opt_toRev := Some (Num 30)\<rparr>)
       = \<lparr>mo_to = Some (name (demo_file ''30-c.js'')), mo_from = None\<rparr>"
    using one_revision [of "demo_options\<lparr>opt_toRev := Some (Num 30)\<rparr>" 30 demo_catalog]
    by (simp add: demo_options_def f)
  have b: "methodOptions demo_catalog (demo_options\<lparr>opt_toRev := Some (Num 35)\<rparr>)
       = \<lparr>mo_to = None, mo_from = None\<rparr>"
    using one_revision [of "demo_options\<lparr>opt_toRev := Some (Num 35)\<rparr>" 35 demo_catalog]
    by (simp add: demo_options_def f)
  have c: "methodOptions demo_catalog (demo_options\<lparr>opt_fromRev := Some (Num 20)\<rparr>)
       = \<lparr>mo_to = None, mo_from = Some ''20-b.js''\<rparr>"
    using one_revision [of "demo_options\<lparr>opt_fromRev := Some (Num 20)\<rparr>" 20 demo_catalog]
    by (simp add: demo_options_def f demo_file_def)
  have r: "map revision demo_catalog = [Num 10, Num 20, Num 30, Num 40]"
    by (simp add: revision_def demo_files)
  from a b c r show ?thesis by (simp add: demo_options_def)
qed

text \<open>As first written the claim covers \<^verbatim>\<open>toRev = 0\<close>. The catalog holds a file that carries
  revision 0, and \<^verbatim>\<open>to\<close> stays unresolved.\<close>

theorem revision_zero_counterexample:
  "opt_to (demo_options\<lparr>opt_toRev := Some (Num 0)\<rparr>) = None
   \<and> opt_from (demo_options\<lparr>opt_toRev := Some (Num 0)\<rparr>) = None
   \<and> opt_fromRev (demo_options\<lparr>opt_toRev := Some (Num 0)\<rparr>) = None
   \<and> opt_toRev (demo_options\<lparr>opt_toRev := Some (Num 0)\<rparr>) = Some (Num 0)
   \<and> find_revision zero_catalog (Some (Num 0)) = Some (demo_file ''0-init.js'')
   \<and> migration (demo_file ''0-init.js'') = Some (demo_migration (Num 0))
   \<and> mo_to (methodOptions zero_catalog (demo_options\<lparr>opt_toRev := Some (Num 0)\<rparr>)) = None"
  by (simp add: methodOptions_def demo_options_def find_revision_def demo_files)

text \<open>The first two parts hold for every truthy value, the infinities included.\<close>

lemma single_revision_truthy:
  assumes "opt_to opts = None" and "opt_from opts = None" and "truthy_number (Some t)"
  shows "(opt_toRev opts = Some t \<and> opt_fromRev opts = None \<longrightarrow>
            methodOptions files opts =
              \<lparr>mo_to = map_option name (find_revision files (Some t)), mo_from = None\<rparr>)
       \<and> (opt_fromRev opts = Some t \<and> opt_toRev opts = None \<longrightarrow>
            methodOptions files opts =
              \<lparr>mo_to = None, mo_from = map_option name (find_revision files (Some t))\<rparr>)"
  using assms by (auto simp: methodOptions_def Let_def split: option.splits)

subsection \<open>Revision zero\<close>

text \<open>
  Claim C10, amended. A revision selector equal to 0 is treated as absent: the result is
  the one obtained without the selector. So \<^verbatim>\<open>toRev = 0\<close> never resolves \<^verbatim>\<open>to\<close> and
  \<^verbatim>\<open>fromRev = 0\<close> never resolves \<^verbatim>\<open>from\<close>, whatever the catalog holds, and the name given for
  that end point is passed on unchanged. The other end point is resolved as it is
  without the zero selector; when its revision selector is absent or falsy as well,
  both names are passed on unchanged.
\<close>

theorem zero_revision_is_absent:
  "methodOptions files (opts\<lparr>opt_toRev := Some (Num 0)\<rparr>) = methodOptions files (opts\<lparr>opt_toRev := None\<rparr>)
   \<and> methodOptions files (opts\<lparr>opt_fromRev := Some (Num 0)\<rparr>) = methodOptions files (opts\<lparr>opt_fromRev := None\<rparr>)
   \<and> mo_to (methodOptions files (opts\<lparr>opt_toRev := Some (Num 0)\<rparr>)) = opt_to opts
   \<and> mo_from (methodOptions files (opts\<lparr>opt_fromRev := Some (Num 0)\<rparr>)) = opt_from opts
   \<and> (\<not> truthy_number (opt_fromRev opts) \<longrightarrow>
        methodOptions files (opts\<lparr>opt_toRev := Some (Num 0)\<rparr>)
          = \<lparr>mo_to = opt_to opts, mo_from = opt_from opts\<rparr>)
   \<and> (\<not> truthy_number (opt_toRev opts) \<longrightarrow>
        methodOptions files (opts\<lparr>opt_fromRev := Some (Num 0)\<rparr>)
          = \<lparr>mo_to = opt_to opts, mo_from = opt_from opts\<rparr>)"
  by (simp add: methodOptions_def Let_def split: option.splits)

text \<open>The theorem at a catalog that holds a file carrying revision 0.\<close>

theorem zero_revision_is_absent_witness:
  "find_revision zero_catalog (Some (Num 0)) = Some (demo_file ''0-init.js'')
   \<and> methodOptions zero_catalog (demo_options\<lparr>opt_toRev := Some (Num 0)\<rparr>)
       = \<lparr>mo_to = None, mo_from = None\<rparr>
   \<and> methodOptions zero_catalog (demo_options\<lparr>opt_fromRev := Some (Num 0)\<rparr>)
       = \<lparr>mo_to = None, mo_from = None\<rparr>
   \<and> methodOptions zero_catalog (demo_options\<lparr>opt_fromRev := Some (Num 5), opt_toRev := Some (Num 0)\<rparr>)
       = methodOptions zero_catalog (demo_options\<lparr>opt_fromRev := Some (Num 5), opt_toRev := None\<rparr>)"
proof -
  have f: "find_revision zero_catalog (Some (Num 0)) = Some (demo_file ''0-init.js'')"
    by (simp add: find_revision_def demo_files)
  have o: "\<not> truthy_number (opt_fromRev demo_options)" "\<not> truthy_number (opt_toRev demo_options)"
    "opt_to demo_options = None" "opt_from demo_options = None"
    by (simp_all add: demo_options_def)
  from zero_revision_is_absent [of zero_catalog demo_options] o(1,2)
  have "methodOptions zero_catalog (demo_options\<lparr>opt_toRev := Some (Num 0)\<rparr>)
          = \<lparr>mo_to = opt_to demo_options, mo_from = opt_from demo_options\<rparr>"
    and "methodOptions zero_catalog (demo_options\<lparr>opt_fromRev := Some (Num 0)\<rparr>)
          = \<lparr>mo_to = opt_to demo_options, mo_from = opt_from demo_options\<rparr>"
    by blast+
  then have a: "methodOptions zero_catalog (demo_options\<lparr>opt_toRev := Some (Num 0)\<rparr>)
          = \<lparr>mo_to = None, mo_from = None\<rparr>"
    and b: "methodOptions zero_catalog (demo_options\<lparr>opt_fromRev := Some (Num 0)\<rparr>)
          = \<lparr>mo_to = None, mo_from = None\<rparr>"
    by (simp_all only: o(3,4))
  from zero_revision_is_absent [of zero_catalog "demo_options\<lparr>opt_fromRev := Some (Num 5)\<rparr>"]
  have c: "methodOptions zero_catalog (demo_options\<lparr>opt_fromRev := Some (Num 5), opt_toRev := Some (Num 0)\<rparr>)
       = methodOptions zero_catalog (demo_options\<lparr>opt_fromRev := Some (Num 5), opt_toRev := None\<rparr>)"
    by blast
  from f a b c show ?thesis by blast
qed

text \<open>As first written the claim has no end point resolved and both names passed on
  once a selector is 0. With \<^verbatim>\<open>fromRev = 0\<close> and \<^verbatim>\<open>toRev = 30\<close> the second branch resolves
  \<^verbatim>\<open>to\<close>.\<close>

theorem zero_selector_counterexample:
  "opt_fromRev (demo_options\<lparr>opt_toRev := Some (Num 30), opt_fromRev := Some (Num 0)\<rparr>) = Some (Num 0)
   \<and> opt_to (demo_options\<lparr>opt_toRev := Some (Num 30), opt_fromRev := Some (Num 0)\<rparr>) = None
   \<and> mo_to (methodOptions demo_catalog
        (demo_options\<lparr>opt_toRev := Some (Num 30), opt_fromRev := Some (Num 0)\<rparr>)) = Some ''30-c.js''"
  by (simp add: methodOptions_def demo_options_def find_revision_def demo_files)

end
